theory Spec2Isabelle
  imports Complex_Main "HOL-Library.Word"
begin

section \<open>Data model (prisma/schema.prisma)\<close>

text \<open>
  Identifiers are the strings Prisma stores (uuids). A \<open>DateTime\<close> is the integer
  number of milliseconds since the epoch that \<open>Date.getTime()\<close> returns.
  The \<open>createdAt\<close>/\<open>updatedAt\<close> stamps are left out: no route reads them.
\<close>

subsection \<open>JavaScript numbers\<close>

text \<open>
  A Prisma \<open>Float\<close> is a JavaScript number, an IEEE-754 binary64 value. A finite one
  is modelled by the real it denotes (both zeros by 0). The one piece of arithmetic on
  such numbers in the routes is the product \<open>room.price * days\<close>; JavaScript rounds the
  exact product to the nearest double, ties to the even significand, and answers an
  infinity when the rounded magnitude reaches \<open>2^1024\<close>.
\<close>

datatype Number = Finite real | PosInfinity | NegInfinity

text \<open>The number of binary digits of a natural number.\<close>

function bitLength :: "nat \<Rightarrow> nat" where
  "bitLength n = (if n = 0 then 0 else Suc (bitLength (n div 2)))"
  by pat_completeness auto
termination
  by (relation "measure id") auto

declare bitLength.simps [simp del]

text \<open>For positive \<open>x\<close>, the binary exponent \<open>e\<close> with \<open>2^e \<le> x < 2^(e+1)\<close>.\<close>

definition exponent :: "real \<Rightarrow> int" where
  "exponent x = (if 1 \<le> x then int (bitLength (nat \<lfloor>x\<rfloor>)) - 1
                 else - int (bitLength (nat (\<lceil>1 / x\<rceil> - 1))))"

text \<open>Rounding to the nearest integer, a tie going to the even one.\<close>

definition roundHalfEven :: "real \<Rightarrow> int" where
  "roundHalfEven x =
     (let n = \<lfloor>x\<rfloor>; d = x - real_of_int n
      in if d < 1 / 2 then n else if 1 / 2 < d then n + 1 else if even n then n else n + 1)"

text \<open>The spacing of the doubles around \<open>x\<close>: 53 significant bits, and never finer than
  the subnormal spacing \<open>2^-1074\<close>.\<close>

definition quantum :: "real \<Rightarrow> real" where
  "quantum x = 2 powi (max (exponent \<bar>x\<bar> - 52) (- 1074))"

definition roundToDouble :: "real \<Rightarrow> Number" where
  "roundToDouble x =
     (if x = 0 then Finite 0
      else (let q = quantum x; r = real_of_int (roundHalfEven (x / q)) * q
            in if 2 ^ 1024 \<le> r then PosInfinity
               else if r \<le> - (2 ^ 1024) then NegInfinity
               else Finite r))"

text \<open>The operator \<open>*\<close> on two finite numbers.\<close>

definition times :: "real \<Rightarrow> real \<Rightarrow> Number" where
  "times x y = roundToDouble (x * y)"

text \<open>A real is a double when it is a whole multiple of the spacing at its own magnitude
  and lies below the overflow threshold.\<close>

definition is_double :: "real \<Rightarrow> bool" where
  "is_double x \<longleftrightarrow>
     x = 0 \<or> (real_of_int \<lfloor>x / quantum x\<rfloor> = x / quantum x \<and> \<bar>x\<bar> < 2 ^ 1024)"

subsection \<open>Tables\<close>

datatype BookingStatus = PENDING | CONFIRMED | CHECKED_IN | CHECKED_OUT | CANCELLED | REJECTED

datatype PaymentStatus = PAYMENT_PENDING | PAID | REFUNDED | FAILED

datatype RoomType = STANDARD | DELUXE | SUITE | PRESIDENTIAL

datatype RoomStatus = AVAILABLE | OCCUPIED | MAINTENANCE | RESERVED

datatype Gender = MALE | FEMALE | OTHER

record FamilyMember =
  name :: string
  age :: real
  gender :: Gender
  relationship :: string

record Hotel =
  hotel_id :: string
  ownerId :: string
  managers :: "string list"

record Room =
  room_id :: string
  roomNumber :: string
  roomCode :: string
  room_type :: RoomType
  price :: real
  capacity :: int
  amenities :: "string list"
  images :: "string list"
  room_status :: RoomStatus
  room_hotelId :: string

record Booking =
  booking_id :: string
  userId :: string
  hotelId :: string
  roomId :: string
  checkIn :: int
  checkOut :: int
  status :: BookingStatus
  totalAmount :: Number
  paymentStatus :: PaymentStatus
  members :: "FamilyMember list"
  documents :: "string option"

text \<open>The database: the tables the routes read and write, rows in insertion order.\<close>

record Store =
  users :: "string list"
  hotels :: "Hotel list"
  rooms :: "Room list"
  bookings :: "Booking list"

definition findFirst :: "('a \<Rightarrow> bool) \<Rightarrow> 'a list \<Rightarrow> 'a option" where
  "findFirst P rows = find P rows"

definition findUnique :: "('a \<Rightarrow> string) \<Rightarrow> string \<Rightarrow> 'a list \<Rightarrow> 'a option" where
  "findUnique key k rows = find (\<lambda>r. key r = k) rows"

section \<open>POST /api/bookings (src/routes/bookingRoutes.ts)\<close>

text \<open>The body after \<open>createBookingSchema.parse\<close>, with both dates already converted
  by \<open>new Date\<close>.\<close>

record CreateBookingBody =
  body_hotelId :: string
  body_roomId :: string
  body_checkIn :: int
  body_checkOut :: int
  body_members :: "FamilyMember list"
  body_documents :: "string option"

datatype BookingResponse =
    Created Booking
  | NotAvailable
  | RoomNotFound
  | FailedToCreate

fun bookingResponseCode :: "BookingResponse \<Rightarrow> nat" where
  "bookingResponseCode (Created b) = 201"
| "bookingResponseCode NotAvailable = 400"
| "bookingResponseCode RoomNotFound = 404"
| "bookingResponseCode FailedToCreate = 400"

text \<open>The \<open>where\<close> clause of the availability query: same room, status in
  \<open>[CONFIRMED, PENDING]\<close>, and the stored interval holds the requested check-in or
  the requested check-out (\<open>lte\<close>/\<open>gte\<close>, both inclusive).\<close>

definition existingBookingWhere :: "CreateBookingBody \<Rightarrow> Booking \<Rightarrow> bool" where
  "existingBookingWhere body b \<longleftrightarrow>
     roomId b = body_roomId body \<and>
     status b \<in> set [CONFIRMED, PENDING] \<and>
     ((checkIn b \<le> body_checkIn body \<and> checkOut b \<ge> body_checkIn body) \<or>
      (checkIn b \<le> body_checkOut body \<and> checkOut b \<ge> body_checkOut body))"

text \<open>The same clause in the compiled variant dist/routes/bookingRoutes.js, whose
  status list is \<open>[CONFIRMED, CHECKED_IN]\<close>.\<close>

definition existingBookingWhere_dist :: "CreateBookingBody \<Rightarrow> Booking \<Rightarrow> bool" where
  "existingBookingWhere_dist body b \<longleftrightarrow>
     roomId b = body_roomId body \<and>
     status b \<in> set [CONFIRMED, CHECKED_IN] \<and>
     ((checkIn b \<le> body_checkIn body \<and> checkOut b \<ge> body_checkIn body) \<or>
      (checkIn b \<le> body_checkOut body \<and> checkOut b \<ge> body_checkOut body))"

text \<open>\<open>Math.ceil((checkOut.getTime() - checkIn.getTime()) / (1000 * 60 * 60 * 24))\<close>\<close>

definition days :: "int \<Rightarrow> int \<Rightarrow> int" where
  "days ci co = \<lceil>real_of_int (co - ci) / (1000 * 60 * 60 * 24)\<rceil>"

text \<open>\<open>prisma.booking.create\<close>: the row gets the fresh uuid \<open>newId\<close>; the call throws
  when the primary key is taken or when a record named by \<open>connect\<close> (user, hotel,
  room) does not exist, and then writes nothing. What the client does with a total that
  is an infinity is the library's matter; the model stores the row, and no statement
  below that speaks of a created row rests on it.\<close>

definition booking_create :: "Store \<Rightarrow> Booking \<Rightarrow> Store option" where
  "booking_create s b =
     (if booking_id b \<in> set (map booking_id (bookings s)) then None
      else if userId b \<notin> set (users s) then None
      else if findUnique hotel_id (hotelId b) (hotels s) = None then None
      else if findUnique room_id (roomId b) (rooms s) = None then None
      else Some (s\<lparr>bookings := bookings s @ [b]\<rparr>))"

definition newBooking :: "string \<Rightarrow> string \<Rightarrow> CreateBookingBody \<Rightarrow> Room \<Rightarrow> Booking" where
  "newBooking user newId body room =
     \<lparr>booking_id = newId,
      userId = user,
      hotelId = body_hotelId body,
      roomId = body_roomId body,
      checkIn = body_checkIn body,
      checkOut = body_checkOut body,
      status = PENDING,
      totalAmount = times (price room) (real_of_int (days (body_checkIn body) (body_checkOut body))),
      paymentStatus = PAYMENT_PENDING,
      members = body_members body,
      documents = body_documents body\<rparr>"

text \<open>The handler of \<open>router.post("/")\<close>, for the authenticated user \<open>user\<close>
  (\<open>req.user.id\<close>). The \<open>catch\<close> block turns a throwing \<open>create\<close> into the 400
  answer "Failed to create booking".\<close>

definition bookings_post ::
    "Store \<Rightarrow> string \<Rightarrow> string \<Rightarrow> CreateBookingBody \<Rightarrow> BookingResponse \<times> Store" where
  "bookings_post s user newId body =
     (case findFirst (existingBookingWhere body) (bookings s) of
        Some existingBooking \<Rightarrow> (NotAvailable, s)
      | None \<Rightarrow>
          (case findUnique room_id (body_roomId body) (rooms s) of
             None \<Rightarrow> (RoomNotFound, s)
           | Some room \<Rightarrow>
               (let booking = newBooking user newId body room in
                case booking_create s booking of
                  None \<Rightarrow> (FailedToCreate, s)
                | Some s' \<Rightarrow> (Created booking, s'))))"

text \<open>The overlap rule in the specification's words, for comparison with
  \<open>existingBookingWhere\<close>: two half-open intervals conflict iff
  \<open>a.checkIn < b.checkOut && b.checkIn < a.checkOut\<close>.\<close>

definition spec_overlap :: "int \<times> int \<Rightarrow> int \<times> int \<Rightarrow> bool" where
  "spec_overlap a b \<longleftrightarrow> fst a < snd b \<and> fst b < snd a"


subsection \<open>Interleaved handlers\<close>

text \<open>
  The handler awaits three store calls: \<open>booking.findFirst\<close>, \<open>room.findUnique\<close>
  and \<open>booking.create\<close>. Node runs the code between two awaits without interruption,
  and another request's handler may run at each await. A handler is therefore a small
  machine whose step is one store call together with the code that follows it.
\<close>

datatype HandlerState =
    AtFindFirst
  | AtFindRoom
  | AtCreate Room
  | Responded BookingResponse

record Handler =
  h_user :: string
  h_newId :: string
  h_body :: CreateBookingBody
  h_state :: HandlerState

definition handler_step :: "Store \<Rightarrow> Handler \<Rightarrow> Store \<times> Handler" where
  "handler_step s h =
     (case h_state h of
        AtFindFirst \<Rightarrow>
          (case findFirst (existingBookingWhere (h_body h)) (bookings s) of
             Some existingBooking \<Rightarrow> (s, h\<lparr>h_state := Responded NotAvailable\<rparr>)
           | None \<Rightarrow> (s, h\<lparr>h_state := AtFindRoom\<rparr>))
      | AtFindRoom \<Rightarrow>
          (case findUnique room_id (body_roomId (h_body h)) (rooms s) of
             None \<Rightarrow> (s, h\<lparr>h_state := Responded RoomNotFound\<rparr>)
           | Some room \<Rightarrow> (s, h\<lparr>h_state := AtCreate room\<rparr>))
      | AtCreate room \<Rightarrow>
          (let booking = newBooking (h_user h) (h_newId h) (h_body h) room in
           case booking_create s booking of
             None \<Rightarrow> (s, h\<lparr>h_state := Responded FailedToCreate\<rparr>)
           | Some s' \<Rightarrow> (s', h\<lparr>h_state := Responded (Created booking)\<rparr>))
      | Responded r \<Rightarrow> (s, h))"

text \<open>A schedule names, step by step, the handler that runs next.\<close>

fun run_schedule :: "Store \<times> Handler list \<Rightarrow> nat list \<Rightarrow> Store \<times> Handler list" where
  "run_schedule c [] = c"
| "run_schedule (s, hs) (i # sched) =
     (if i < length hs
      then (let (s', h') = handler_step s (hs ! i) in run_schedule (s', hs[i := h']) sched)
      else run_schedule (s, hs) sched)"

definition succeeded :: "Handler \<Rightarrow> bool" where
  "succeeded h \<longleftrightarrow> (case h_state h of Responded (Created b) \<Rightarrow> True | _ \<Rightarrow> False)"

section \<open>PUT /api/bookings/:id/status (src/routes/bookingRoutes.ts)\<close>

datatype StatusResponse =
    Updated Booking
  | BookingNotFound
  | NotAuthorized
  | FailedToUpdate

fun statusResponseCode :: "StatusResponse \<Rightarrow> nat" where
  "statusResponseCode (Updated b) = 200"
| "statusResponseCode BookingNotFound = 404"
| "statusResponseCode NotAuthorized = 403"
| "statusResponseCode FailedToUpdate = 500"

text \<open>\<open>prisma.booking.update\<close> by primary key: the row with that id gets the new
  status, every other row and column stays.\<close>

definition booking_update :: "string \<Rightarrow> BookingStatus \<Rightarrow> Booking list \<Rightarrow> Booking list" where
  "booking_update k st rows = map (\<lambda>b. if booking_id b = k then b\<lparr>status := st\<rparr> else b) rows"

text \<open>The handler of \<open>router.put("/:id/status")\<close> for the authenticated user \<open>user\<close>.
  The requested status is a value of the enum. \<open>include: { hotel: true }\<close> joins the
  booking's hotel; were the hotel row missing, reading \<open>booking.hotel.ownerId\<close> would
  throw and the \<open>catch\<close> block answer 500.\<close>

definition bookings_put_status ::
    "Store \<Rightarrow> string \<Rightarrow> string \<Rightarrow> BookingStatus \<Rightarrow> StatusResponse \<times> Store" where
  "bookings_put_status s user k newStatus =
     (case findUnique booking_id k (bookings s) of
        None \<Rightarrow> (BookingNotFound, s)
      | Some booking \<Rightarrow>
          (case findUnique hotel_id (hotelId booking) (hotels s) of
             None \<Rightarrow> (FailedToUpdate, s)
           | Some hotel \<Rightarrow>
               if ownerId hotel \<noteq> user then (NotAuthorized, s)
               else (Updated (booking\<lparr>status := newStatus\<rparr>),
                     s\<lparr>bookings := booking_update k newStatus (bookings s)\<rparr>)))"

text \<open>The transition table in the specification's words, for comparison with the
  handler: PENDING to CONFIRMED, REJECTED or CANCELLED; CONFIRMED to CHECKED_IN or
  CANCELLED; CHECKED_IN to CHECKED_OUT; the other three states are terminal.\<close>

fun spec_reachable :: "BookingStatus \<Rightarrow> BookingStatus \<Rightarrow> bool" where
  "spec_reachable PENDING t = (t \<in> set [CONFIRMED, REJECTED, CANCELLED])"
| "spec_reachable CONFIRMED t = (t \<in> set [CHECKED_IN, CANCELLED])"
| "spec_reachable CHECKED_IN t = (t = CHECKED_OUT)"
| "spec_reachable CHECKED_OUT t = False"
| "spec_reachable CANCELLED t = False"
| "spec_reachable REJECTED t = False"

section \<open>EncryptionService (src/utils/encryption.ts)\<close>

text \<open>
  A \<open>Buffer\<close> is a list of bytes. Node's \<open>crypto\<close> module is not part of the
  repository; its three primitives are parameters of the model:
  \<^item> \<open>pbkdf2Sync password salt iterations keylen digest\<close>;
  \<^item> \<open>cipher algorithm key iv authTagLength data\<close>, standing for
    \<open>createCipheriv\<close>, \<open>update\<close>, \<open>final\<close> and \<open>getAuthTag\<close>: the ciphertext
    and the tag, or \<open>None\<close> where Node throws (a key or iv of the wrong size);
  \<^item> \<open>decipher algorithm key iv authTagLength tag encrypted\<close>, standing for
    \<open>createDecipheriv\<close>, \<open>setAuthTag\<close>, \<open>update\<close> and \<open>final\<close>: the
    plaintext, or \<open>None\<close> where Node throws (among others when the tag does not
    verify).
  The three \<open>crypto.randomBytes\<close> results of \<open>encrypt\<close> are inputs.
\<close>

type_synonym Buffer = "8 word list"

record CryptoLib =
  pbkdf2Sync :: "string \<Rightarrow> Buffer \<Rightarrow> nat \<Rightarrow> nat \<Rightarrow> string \<Rightarrow> Buffer"
  cipher :: "string \<Rightarrow> Buffer \<Rightarrow> Buffer \<Rightarrow> nat \<Rightarrow> Buffer \<Rightarrow> (Buffer \<times> Buffer) option"
  decipher :: "string \<Rightarrow> Buffer \<Rightarrow> Buffer \<Rightarrow> nat \<Rightarrow> Buffer \<Rightarrow> Buffer \<Rightarrow> Buffer option"

record RandomBytes =
  rnd_salt :: Buffer
  rnd_iv :: Buffer
  rnd_password :: Buffer

definition algorithm :: string where "algorithm = ''aes-256-gcm''"
definition keyLength :: nat where "keyLength = 32"
definition ivLength :: nat where "ivLength = 16"
definition saltLength :: nat where "saltLength = 64"
definition tagLength :: nat where "tagLength = 16"

text \<open>\<open>buf.subarray(start, end)\<close> for indices that are not negative: both are clamped
  to the length, and the result is empty when \<open>end\<close> is not beyond \<open>start\<close>.\<close>

definition subarray :: "Buffer \<Rightarrow> nat \<Rightarrow> nat \<Rightarrow> Buffer" where
  "subarray buf start end' = take (end' - start) (drop start buf)"

definition subarray_from :: "Buffer \<Rightarrow> nat \<Rightarrow> Buffer" where
  "subarray_from buf start = drop start buf"

text \<open>\<open>buf.toString('hex')\<close>: two lower-case digits for each byte.\<close>

definition hexDigit :: "nat \<Rightarrow> char" where
  "hexDigit d = ''0123456789abcdef'' ! d"

definition toString_hex :: "Buffer \<Rightarrow> string" where
  "toString_hex buf = concat (map (\<lambda>w. [hexDigit (unat w div 16), hexDigit (unat w mod 16)]) buf)"

definition generateKey :: "CryptoLib \<Rightarrow> string \<Rightarrow> Buffer \<Rightarrow> Buffer" where
  "generateKey lib password salt = pbkdf2Sync lib password salt 100000 keyLength ''sha512''"

text \<open>\<open>encrypt\<close> returns \<open>encryptedData\<close> and \<open>encryptionKey\<close>.\<close>

definition encrypt :: "CryptoLib \<Rightarrow> RandomBytes \<Rightarrow> Buffer \<Rightarrow> (Buffer \<times> string) option" where
  "encrypt lib rnd data =
     (let salt = rnd_salt rnd;
          iv = rnd_iv rnd;
          password = toString_hex (rnd_password rnd);
          key = generateKey lib password salt
      in case cipher lib algorithm key iv tagLength data of
           None \<Rightarrow> None
         | Some (encrypted, tag) \<Rightarrow> Some (salt @ iv @ tag @ encrypted, password))"

definition decrypt :: "CryptoLib \<Rightarrow> Buffer \<Rightarrow> string \<Rightarrow> Buffer option" where
  "decrypt lib encryptedData password =
     (let salt = subarray encryptedData 0 saltLength;
          iv = subarray encryptedData saltLength (saltLength + ivLength);
          tag = subarray encryptedData (saltLength + ivLength) (saltLength + ivLength + tagLength);
          encrypted = subarray_from encryptedData (saltLength + ivLength + tagLength);
          key = generateKey lib password salt
      in decipher lib algorithm key iv tagLength tag encrypted)"

section \<open>POST /api/rooms (routes/roomRoutes.ts)\<close>

text \<open>\<open>Date.now().toString()\<close>: the decimal digits of the millisecond count.\<close>

definition digitChar :: "nat \<Rightarrow> char" where
  "digitChar d = ''0123456789'' ! d"

function toString :: "nat \<Rightarrow> string" where
  "toString n = (if n < 10 then [digitChar n] else toString (n div 10) @ [digitChar (n mod 10)])"
  by pat_completeness auto
termination
  by (relation "measure id") auto

declare toString.simps [simp del]

text \<open>\<open>generateRoomCode\<close>. Its two inputs from outside the repository are the clock
  reading \<open>now\<close> (\<open>Date.now()\<close>) and \<open>sha256hex\<close>, which stands for
  \<open>crypto.createHash('sha256').update(counter).digest('hex')\<close>.\<close>

definition generateRoomCode :: "(string \<Rightarrow> string) \<Rightarrow> nat \<Rightarrow> string" where
  "generateRoomCode sha256hex now =
     (let counter = toString now;
          hash = sha256hex counter
      in take 6 hash)"

record CreateRoomBody =
  rb_hotelId :: string
  rb_roomNumber :: string
  rb_type :: RoomType
  rb_price :: real
  rb_capacity :: int
  rb_amenities :: "string list"
  rb_images :: "string list option"

text \<open>The numeric checks of \<open>createRoomSchema\<close>: \<open>price\<close> positive, \<open>capacity\<close> at
  least 1. A body that fails them makes \<open>parse\<close> throw.\<close>

definition createRoomSchema :: "CreateRoomBody \<Rightarrow> bool" where
  "createRoomSchema body \<longleftrightarrow> rb_price body > 0 \<and> rb_capacity body \<ge> 1"

datatype RoomResponse =
    RoomCreated Room
  | FailedToCreateRoom

text \<open>\<open>prisma.room.create\<close>: throws, writing nothing, when the primary key is taken,
  when \<open>roomCode\<close> is taken (\<open>@unique\<close>), when the hotel already has the room number
  (\<open>@@unique([hotelId, roomNumber])\<close>), when the hotel to connect does not exist or
  when \<open>capacity\<close> does not fit the 32-bit \<open>Int\<close> column.\<close>

definition room_create :: "Store \<Rightarrow> Room \<Rightarrow> Store option" where
  "room_create s r =
     (if room_id r \<in> set (map room_id (rooms s)) then None
      else if roomCode r \<in> set (map roomCode (rooms s)) then None
      else if (room_hotelId r, roomNumber r) \<in> set (map (\<lambda>x. (room_hotelId x, roomNumber x)) (rooms s))
        then None
      else if findUnique hotel_id (room_hotelId r) (hotels s) = None then None
      else if capacity r < - (2 ^ 31) \<or> 2 ^ 31 \<le> capacity r then None
      else Some (s\<lparr>rooms := rooms s @ [r]\<rparr>))"

definition newRoom :: "string \<Rightarrow> string \<Rightarrow> CreateRoomBody \<Rightarrow> Room" where
  "newRoom newId code body =
     \<lparr>room_id = newId,
      roomNumber = rb_roomNumber body,
      roomCode = code,
      room_type = rb_type body,
      price = rb_price body,
      capacity = rb_capacity body,
      amenities = rb_amenities body,
      images = (case rb_images body of None \<Rightarrow> [] | Some imgs \<Rightarrow> imgs),
      room_status = AVAILABLE,
      room_hotelId = rb_hotelId body\<rparr>"

text \<open>The handler of \<open>router.post("/")\<close>; every exception ends in the 400 answer
  "Failed to create room".\<close>

definition rooms_post ::
    "(string \<Rightarrow> string) \<Rightarrow> Store \<Rightarrow> nat \<Rightarrow> string \<Rightarrow> CreateRoomBody \<Rightarrow> RoomResponse \<times> Store" where
  "rooms_post sha256hex s now newId body =
     (if \<not> createRoomSchema body then (FailedToCreateRoom, s)
      else
        (let code = generateRoomCode sha256hex now;
             room = newRoom newId code body
         in case room_create s room of
              None \<Rightarrow> (FailedToCreateRoom, s)
            | Some s' \<Rightarrow> (RoomCreated room, s')))"

section \<open>Example data\<close>

text \<open>One hotel with an owner and a delegated manager, one room at 100 a night, and a
  guest. The examples below are evaluated on stores built from these.\<close>

definition hotel1 :: Hotel where
  "hotel1 = \<lparr>hotel_id = ''h1'', ownerId = ''owner'', managers = [''manager'']\<rparr>"

definition room1 :: Room where
  "room1 = \<lparr>room_id = ''r1'', roomNumber = ''101'', roomCode = ''a1b2c3'',
     room_type = STANDARD, price = 100, capacity = 2, amenities = [], images = [],
     room_status = AVAILABLE, room_hotelId = ''h1''\<rparr>"

definition booking_of :: "BookingStatus \<Rightarrow> int \<Rightarrow> int \<Rightarrow> Booking" where
  "booking_of st ci co = \<lparr>booking_id = ''b1'', userId = ''guest'', hotelId = ''h1'',
     roomId = ''r1'', checkIn = ci, checkOut = co, status = st, totalAmount = Finite 0,
     paymentStatus = PAYMENT_PENDING, members = [], documents = None\<rparr>"

definition store_with :: "Booking list \<Rightarrow> Store" where
  "store_with bs = \<lparr>users = [''guest'', ''owner'', ''manager''], hotels = [hotel1],
     rooms = [room1], bookings = bs\<rparr>"

definition request :: "int \<Rightarrow> int \<Rightarrow> CreateBookingBody" where
  "request ci co = \<lparr>body_hotelId = ''h1'', body_roomId = ''r1'', body_checkIn = ci,
     body_checkOut = co, body_members = [], body_documents = None\<rparr>"

text \<open>A second room of the same hotel, priced at the double nearest to 0.1.\<close>

definition room0 :: Room where
  "room0 = \<lparr>room_id = ''r0'', roomNumber = ''100'', roomCode = ''0f0f0f'',
     room_type = STANDARD, price = 3602879701896397 / 36028797018963968, capacity = 1,
     amenities = [], images = [], room_status = AVAILABLE, room_hotelId = ''h1''\<rparr>"

definition store0 :: "Booking list \<Rightarrow> Store" where
  "store0 bs = \<lparr>users = [''guest'', ''owner'', ''manager''], hotels = [hotel1],
     rooms = [room1, room0], bookings = bs\<rparr>"

definition request0 :: "int \<Rightarrow> int \<Rightarrow> CreateBookingBody" where
  "request0 ci co = \<lparr>body_hotelId = ''h1'', body_roomId = ''r0'', body_checkIn = ci,
     body_checkOut = co, body_members = [], body_documents = None\<rparr>"

definition handler :: "string \<Rightarrow> string \<Rightarrow> CreateBookingBody \<Rightarrow> Handler" where
  "handler u i b = \<lparr>h_user = u, h_newId = i, h_body = b, h_state = AtFindFirst\<rparr>"

definition room_body :: "string \<Rightarrow> CreateRoomBody" where
  "room_body n = \<lparr>rb_hotelId = ''h1'', rb_roomNumber = n, rb_type = DELUXE, rb_price = 150,
     rb_capacity = 2, rb_amenities = [], rb_images = None\<rparr>"

text \<open>Stand-ins for the library primitives, used only to run the examples: a key
  derivation that returns \<open>keylen\<close> zero bytes, a cipher that adds one to every byte
  and always issues the tag of sevens, a decipher that checks the tag and subtracts one,
  and a digest that reverses its input and pads it with zeros.\<close>

definition example_lib :: CryptoLib where
  "example_lib = \<lparr>pbkdf2Sync = (\<lambda>password salt iterations keylen digest. replicate keylen 0),
     cipher = (\<lambda>alg key iv n data. Some (map (\<lambda>w. w + 1) data, replicate n 7)),
     decipher = (\<lambda>alg key iv n tag encrypted.
        if tag = replicate n 7 then Some (map (\<lambda>w. w - 1) encrypted) else None)\<rparr>"

definition example_random :: RandomBytes where
  "example_random = \<lparr>rnd_salt = replicate 64 1, rnd_iv = replicate 16 2,
     rnd_password = replicate 32 3\<rparr>"

definition example_sha256hex :: "string \<Rightarrow> string" where
  "example_sha256hex counter = rev counter @ replicate 64 (CHR ''0'')"

lemmas example_defs = hotel1_def room1_def booking_of_def store_with_def request_def

lemmas example0_defs = hotel1_def room1_def room0_def store0_def request0_def

lemmas booking_defs = bookings_post_def findFirst_def findUnique_def existingBookingWhere_def
  booking_create_def newBooking_def Let_def

lemmas status_defs = bookings_put_status_def booking_update_def findUnique_def

section \<open>Auxiliary facts\<close>

text \<open>The day count as integer division: the ceiling of a quotient of integers.\<close>

lemma days_div: "days ci co = - ((ci - co) div 86400000)"
proof -
  have "real_of_int (co - ci) / (1000 * 60 * 60 * 24) = real_of_int (co - ci) / real_of_int 86400000"
    by simp
  then have "days ci co = - (- (co - ci) div 86400000)"
    unfolding days_def by (simp only: ceiling_divide_eq_div)
  then show ?thesis by simp
qed

lemma days_nonpos_iff: "days ci co \<le> 0 \<longleftrightarrow> co \<le> ci"
  unfolding days_div by auto

text \<open>Rounding up: the day count is the least number of whole days that covers the stay.\<close>

lemma days_rounds_up:
  "co - ci \<le> days ci co * 86400000 \<and> (days ci co - 1) * 86400000 < co - ci"
  unfolding days_div by auto

text \<open>Evaluating the number model on numerals.\<close>

lemma bitLength_0: "bitLength 0 = 0"
  by (simp add: bitLength.simps)

lemma bitLength_pos: "0 < n \<Longrightarrow> bitLength n = Suc (bitLength (n div 2))"
  by (subst bitLength.simps) simp

lemmas number_eval = times_def roundToDouble_def quantum_def exponent_def roundHalfEven_def
  is_double_def bitLength_0 bitLength_pos Let_def

text \<open>Parsing the decimal 0.1 gives the price of \<open>room0\<close>; 100 and 400 are doubles.\<close>

lemma roundToDouble_tenth:
  "roundToDouble (1 / 10) = Finite (3602879701896397 / 36028797018963968)"
  by (simp add: number_eval)

lemma is_double_examples:
  "is_double (3602879701896397 / 36028797018963968) \<and> is_double 100 \<and> is_double 400"
  by (simp add: number_eval)

lemma quantum_pos: "0 < quantum x"
  by (simp add: quantum_def)

text \<open>Rounding moves a number by at most half the spacing, gives back a double
  unchanged, and keeps the sign.\<close>

lemma roundHalfEven_error: "\<bar>real_of_int (roundHalfEven y) - y\<bar> \<le> 1 / 2"
  unfolding roundHalfEven_def Let_def by (auto split: if_splits)

lemma roundHalfEven_le: "roundHalfEven y \<le> \<lfloor>y\<rfloor> + 1"
  unfolding roundHalfEven_def Let_def by simp

lemma roundHalfEven_int: "real_of_int \<lfloor>y\<rfloor> = y \<Longrightarrow> roundHalfEven y = \<lfloor>y\<rfloor>"
proof -
  assume a: "real_of_int \<lfloor>y\<rfloor> = y"
  have "y - real_of_int \<lfloor>y\<rfloor> = 0" unfolding a by simp
  then show ?thesis
    unfolding roundHalfEven_def Let_def by (simp only: if_True zero_less_divide_1_iff zero_less_numeral)
qed

lemma roundToDouble_error:
  assumes "roundToDouble x = Finite t"
  shows "\<bar>t - x\<bar> \<le> quantum x / 2"
proof (cases "x = 0")
  case True
  with assms show ?thesis
    using quantum_pos [of 0] by (simp add: roundToDouble_def)
next
  case False
  let ?q = "quantum x"
  have q: "0 < ?q" by (rule quantum_pos)
  from assms False have t: "t = real_of_int (roundHalfEven (x / ?q)) * ?q"
    by (simp add: roundToDouble_def Let_def split: if_splits)
  have "t - x = (real_of_int (roundHalfEven (x / ?q)) - x / ?q) * ?q"
    using q by (simp add: t algebra_simps)
  then have "\<bar>t - x\<bar> = \<bar>real_of_int (roundHalfEven (x / ?q)) - x / ?q\<bar> * ?q"
    using q by (simp add: abs_mult)
  also have "\<dots> \<le> 1 / 2 * ?q"
    using roundHalfEven_error [of "x / ?q"] q by (intro mult_right_mono) simp_all
  finally show ?thesis by simp
qed

lemma roundToDouble_exact:
  assumes "is_double x"
  shows "roundToDouble x = Finite x"
proof (cases "x = 0")
  case True
  then show ?thesis by (simp add: roundToDouble_def)
next
  case False
  let ?q = "quantum x"
  have q: "0 < ?q" by (rule quantum_pos)
  from assms False have i: "real_of_int \<lfloor>x / ?q\<rfloor> = x / ?q" and b: "\<bar>x\<bar> < 2 ^ 1024"
    by (simp_all add: is_double_def)
  have e: "roundHalfEven (x / ?q) = \<lfloor>x / ?q\<rfloor>"
    using i by (rule roundHalfEven_int)
  have r: "real_of_int (roundHalfEven (x / ?q)) * ?q = x"
    unfolding e i using q by simp
  from b have b1: "\<not> 2 ^ 1024 \<le> x" and b2: "\<not> x \<le> - (2 ^ 1024)"
    by (simp_all add: abs_less_iff)
  show ?thesis
    unfolding roundToDouble_def Let_def r by (simp only: False b1 b2 if_False)
qed

lemma roundToDouble_nonpos:
  assumes "roundToDouble x = Finite t" and "x \<le> 0"
  shows "t \<le> 0"
proof (cases "x = 0")
  case True
  with assms show ?thesis by (simp add: roundToDouble_def)
next
  case False
  let ?q = "quantum x"
  have q: "0 < ?q" by (rule quantum_pos)
  from assms False have t: "t = real_of_int (roundHalfEven (x / ?q)) * ?q"
    by (simp add: roundToDouble_def Let_def split: if_splits)
  from assms False q have "x / ?q < 0"
    by (simp add: divide_neg_pos)
  then have "\<lfloor>x / ?q\<rfloor> + 1 \<le> 0"
    by (simp add: floor_less_iff add1_zle_eq)
  then have "roundHalfEven (x / ?q) \<le> 0"
    using roundHalfEven_le [of "x / ?q"] by linarith
  with q show ?thesis
    unfolding t by (simp add: mult_le_0_iff)
qed

lemma find_booking_update:
  "find (\<lambda>b. booking_id b = k) rows = Some booking \<Longrightarrow>
   find (\<lambda>b. booking_id b = k) (booking_update k st rows) = Some (booking\<lparr>status := st\<rparr>)"
  by (induction rows) (auto simp: booking_update_def)



text \<open>A handler that runs alone takes its three steps one after the other and ends where
  \<open>bookings_post\<close> does: the machine is the handler cut at its awaits.\<close>

lemma handler_alone:
  "run_schedule (s, [handler u i b]) [0, 0, 0] =
     (snd (bookings_post s u i b),
      [(handler u i b)\<lparr>h_state := Responded (fst (bookings_post s u i b))\<rparr>])"
  by (simp add: handler_def handler_step_def bookings_post_def Let_def split: option.splits)

lemma room_create_rooms: "room_create s r = Some s' \<Longrightarrow> rooms s' = rooms s @ [r]"
  by (auto simp: room_create_def split: if_splits)

lemma toString_digit: "n < 10 \<Longrightarrow> toString n = [digitChar n]"
  by (simp add: toString.simps)

lemma toString_more: "10 \<le> n \<Longrightarrow> toString n = toString (n div 10) @ [digitChar (n mod 10)]"
  by (subst toString.simps) simp

lemma toString_example: "toString 1738418400000 = ''1738418400000''"
  by (simp add: toString_digit toString_more digitChar_def)

lemma toString_hex_example: "toString_hex [0x0a, 0xff, 0x10] = ''0aff10''"
  by (simp add: toString_hex_def hexDigit_def)

section \<open>Availability check of POST /api/bookings\<close>

text \<open>
  C1, as the specification states it, at a concrete request: room \<open>r1\<close> holds a PENDING
  booking from 100 to 200 and the request asks for 50 to 100, so its check-out equals the
  stored check-in. The half-open rule of the specification sees no overlap, yet the
  handler answers 400 "Room not available": the query compares with \<open>lte\<close> and
  \<open>gte\<close>, so the stored interval is closed at both ends.
\<close>

theorem bookings_post_back_to_back_rejected:
  "fst (bookings_post (store_with [booking_of PENDING 100 200]) ''guest'' ''b2'' (request 50 100))
     = NotAvailable \<and>
   \<not> spec_overlap (50, 100) (100, 200)"
  by (simp add: booking_defs example_defs spec_overlap_def)

text \<open>
  C1, amended to closed intervals. For a request and a stored booking \<open>b\<close> of the same
  room whose status is PENDING or CONFIRMED:
  \<^item> when the requested check-in or the requested check-out lies in the closed interval
    from the stored check-in to the stored check-out, the request is answered 400
    "Room not available" and the store is unchanged;
  \<^item> so, when the stored check-in is not after the stored check-out, a request whose
    check-out equals the stored check-in is rejected (no back-to-back stays), and so is a
    request whose check-in equals the stored check-in.

  And a request with check-in not after check-out that lies entirely before or entirely
  after every stored booking of the room whose status is PENDING, CONFIRMED or CHECKED_IN
  is not answered "Room not available".

  The statement is silent on a request that overlaps a CHECKED_IN booking and on a
  request that strictly contains a stored interval.
\<close>

theorem bookings_post_conflict_closed_interval:
  "(b \<in> set (bookings s) \<and> roomId b = body_roomId body \<and> status b \<in> {PENDING, CONFIRMED} \<and>
      ((checkIn b \<le> body_checkIn body \<and> body_checkIn body \<le> checkOut b) \<or>
       (checkIn b \<le> body_checkOut body \<and> body_checkOut body \<le> checkOut b))
     \<longrightarrow> bookings_post s user newId body = (NotAvailable, s)) \<and>
   (b \<in> set (bookings s) \<and> roomId b = body_roomId body \<and> status b \<in> {PENDING, CONFIRMED} \<and>
      checkIn b \<le> checkOut b \<and>
      (body_checkOut body = checkIn b \<or> body_checkIn body = checkIn b)
     \<longrightarrow> bookings_post s user newId body = (NotAvailable, s)) \<and>
   (body_checkIn body \<le> body_checkOut body \<and>
      (\<forall>b \<in> set (bookings s).
          roomId b = body_roomId body \<and> status b \<in> {PENDING, CONFIRMED, CHECKED_IN}
          \<longrightarrow> checkOut b < body_checkIn body \<or> body_checkOut body < checkIn b)
     \<longrightarrow> fst (bookings_post s user newId body) \<noteq> NotAvailable)"
proof -
  have found: "bookings_post s user newId body = (NotAvailable, s)"
    if "b \<in> set (bookings s)" and "existingBookingWhere body b"
  proof -
    from that have "find (existingBookingWhere body) (bookings s) \<noteq> None"
      by (auto simp: find_None_iff)
    then show ?thesis
      by (auto simp: bookings_post_def findFirst_def)
  qed
  show ?thesis
  proof (intro conjI impI)
    assume h: "b \<in> set (bookings s) \<and> roomId b = body_roomId body \<and>
        status b \<in> {PENDING, CONFIRMED} \<and>
        ((checkIn b \<le> body_checkIn body \<and> body_checkIn body \<le> checkOut b) \<or>
         (checkIn b \<le> body_checkOut body \<and> body_checkOut body \<le> checkOut b))"
    then have "existingBookingWhere body b"
      by (auto simp: existingBookingWhere_def)
    with h show "bookings_post s user newId body = (NotAvailable, s)"
      by (intro found) simp_all
  next
    assume h: "b \<in> set (bookings s) \<and> roomId b = body_roomId body \<and>
        status b \<in> {PENDING, CONFIRMED} \<and> checkIn b \<le> checkOut b \<and>
        (body_checkOut body = checkIn b \<or> body_checkIn body = checkIn b)"
    then have "existingBookingWhere body b"
      by (auto simp: existingBookingWhere_def)
    with h show "bookings_post s user newId body = (NotAvailable, s)"
      by (intro found) simp_all
  next
    assume h: "body_checkIn body \<le> body_checkOut body \<and>
        (\<forall>b \<in> set (bookings s).
            roomId b = body_roomId body \<and> status b \<in> {PENDING, CONFIRMED, CHECKED_IN}
            \<longrightarrow> checkOut b < body_checkIn body \<or> body_checkOut body < checkIn b)"
    have "\<not> existingBookingWhere body b" if "b \<in> set (bookings s)" for b
      using h that by (fastforce simp: existingBookingWhere_def)
    then have "find (existingBookingWhere body) (bookings s) = None"
      by (simp add: find_None_iff)
    then show "fst (bookings_post s user newId body) \<noteq> NotAvailable"
      by (simp add: bookings_post_def findFirst_def Let_def split: option.splits)
  qed
qed

text \<open>
  C1, the amended statement at concrete requests against the PENDING booking from 100 to
  200: the request 150 to 250, whose check-in lies inside it, and the back-to-back request
  50 to 100 are rejected with the store unchanged; the request 10 to 99, which ends before
  the booking starts, is not rejected as unavailable.
\<close>

theorem bookings_post_conflict_closed_interval_witness:
  "bookings_post (store_with [booking_of PENDING 100 200]) ''guest'' ''b2'' (request 150 250)
     = (NotAvailable, store_with [booking_of PENDING 100 200]) \<and>
   bookings_post (store_with [booking_of PENDING 100 200]) ''guest'' ''b2'' (request 50 100)
     = (NotAvailable, store_with [booking_of PENDING 100 200]) \<and>
   fst (bookings_post (store_with [booking_of PENDING 100 200]) ''guest'' ''b2'' (request 10 99))
     \<noteq> NotAvailable"
proof (intro conjI)
  show "bookings_post (store_with [booking_of PENDING 100 200]) ''guest'' ''b2'' (request 150 250)
     = (NotAvailable, store_with [booking_of PENDING 100 200])"
    by (rule bookings_post_conflict_closed_interval
          [of "booking_of PENDING 100 200", THEN conjunct1, THEN mp])
       (simp add: example_defs)
  show "bookings_post (store_with [booking_of PENDING 100 200]) ''guest'' ''b2'' (request 50 100)
     = (NotAvailable, store_with [booking_of PENDING 100 200])"
    by (rule bookings_post_conflict_closed_interval
          [of "booking_of PENDING 100 200", THEN conjunct2, THEN conjunct1, THEN mp])
       (simp add: example_defs)
  show "fst (bookings_post (store_with [booking_of PENDING 100 200]) ''guest'' ''b2''
          (request 10 99)) \<noteq> NotAvailable"
    by (rule bookings_post_conflict_closed_interval [THEN conjunct2, THEN conjunct2, THEN mp])
       (simp add: example_defs)
qed

text \<open>The query has no clause for a stored booking that lies strictly inside the
  requested interval: against the PENDING booking from 100 to 200, the request 50 to 250
  is created.\<close>

lemma bookings_post_containing_interval_created:
  "bookings_post (store_with [booking_of PENDING 100 200]) ''guest'' ''b2'' (request 50 250)
   = (Created (newBooking ''guest'' ''b2'' (request 50 250) room1),
      store_with [booking_of PENDING 100 200, newBooking ''guest'' ''b2'' (request 50 250) room1])"
  by (simp add: booking_defs example_defs)

text \<open>
  C2 at a concrete request: room \<open>r1\<close> holds a CHECKED_IN booking from 100 to 200 and the
  request asks for 120 to 180, inside it. The status list of the query is
  \<open>[CONFIRMED, PENDING]\<close>, so the stored booking is not found and the new booking is
  inserted beside it.
\<close>

theorem bookings_post_ignores_checked_in:
  "bookings_post (store_with [booking_of CHECKED_IN 100 200]) ''guest'' ''b2'' (request 120 180)
   = (Created (newBooking ''guest'' ''b2'' (request 120 180) room1),
      store_with [booking_of CHECKED_IN 100 200,
                  newBooking ''guest'' ''b2'' (request 120 180) room1])"
  by (simp add: booking_defs example_defs)

text \<open>The query of the compiled variant does match that CHECKED_IN booking, and does not
  match it when it is PENDING.\<close>

lemma existingBookingWhere_dist_checked_in:
  "existingBookingWhere_dist (request 120 180) (booking_of CHECKED_IN 100 200) \<and>
   \<not> existingBookingWhere_dist (request 120 180) (booking_of PENDING 100 200)"
  by (simp add: existingBookingWhere_dist_def example_defs)

text \<open>The statuses the query of the TypeScript source does and does not consider.\<close>

lemma existingBookingWhere_status:
  "existingBookingWhere body b \<Longrightarrow> status b = PENDING \<or> status b = CONFIRMED"
  by (auto simp: existingBookingWhere_def)

section \<open>Pricing in POST /api/bookings\<close>

text \<open>
  C5, as the specification states it, at a concrete request: three nights (check-in at
  the epoch, check-out 259200000 ms later) in room \<open>r0\<close>, whose rate is the double
  nearest to 0.1. The booking is created, and its total is the double
  0.30000000000000004 (1351079888211149 / 2^52), not three times the rate: the exact
  product lies halfway between two doubles and the multiplication rounds it.
\<close>

theorem tenth_rate_total_is_rounded:
  "bookings_post (store0 []) ''guest'' ''b2'' (request0 0 259200000)
     = (Created (newBooking ''guest'' ''b2'' (request0 0 259200000) room0),
        store0 [newBooking ''guest'' ''b2'' (request0 0 259200000) room0]) \<and>
   \<lceil>real_of_int (259200000 - 0) / 86400000\<rceil> = 3 \<and>
   totalAmount (newBooking ''guest'' ''b2'' (request0 0 259200000) room0)
     = Finite (1351079888211149 / 4503599627370496) \<and>
   totalAmount (newBooking ''guest'' ''b2'' (request0 0 259200000) room0)
     \<noteq> Finite (real_of_int \<lceil>real_of_int (259200000 - 0) / 86400000\<rceil> * price room0)"
proof -
  have run: "bookings_post (store0 []) ''guest'' ''b2'' (request0 0 259200000)
     = (Created (newBooking ''guest'' ''b2'' (request0 0 259200000) room0),
        store0 [newBooking ''guest'' ''b2'' (request0 0 259200000) room0])"
    by (simp add: booking_defs example0_defs)
  have nights: "\<lceil>real_of_int (259200000 - 0) / 86400000\<rceil> = 3"
    by simp
  have d: "days 0 259200000 = 3"
    by (simp add: days_div)
  have total: "totalAmount (newBooking ''guest'' ''b2'' (request0 0 259200000) room0)
     = Finite (1351079888211149 / 4503599627370496)"
    by (simp add: newBooking_def request0_def room0_def d number_eval)
  have p: "price room0 = 3602879701896397 / 36028797018963968"
    by (simp add: room0_def)
  show ?thesis
    unfolding total nights p using run [unfolded total] total by simp
qed

text \<open>
  C5, amended to the arithmetic of JavaScript numbers. Whenever the handler creates a
  booking, its total is the product of the number of nights, the duration in milliseconds
  divided by 86400000 and rounded up, and the nightly rate of the stored room, rounded to
  a double: a finite total differs from the exact product by at most half the spacing of
  the doubles there, and it is the exact product whenever that product is itself a
  double.
\<close>

theorem bookings_post_totalAmount:
  "bookings_post s user newId body = (Created b, s') \<Longrightarrow>
     \<exists>room. findUnique room_id (body_roomId body) (rooms s) = Some room \<and>
       totalAmount b
         = roundToDouble
             (real_of_int \<lceil>real_of_int (body_checkOut body - body_checkIn body) / 86400000\<rceil>
                * price room) \<and>
       (\<forall>t. totalAmount b = Finite t \<longrightarrow>
          \<bar>t - real_of_int \<lceil>real_of_int (body_checkOut body - body_checkIn body) / 86400000\<rceil>
                * price room\<bar>
            \<le> quantum (real_of_int
                  \<lceil>real_of_int (body_checkOut body - body_checkIn body) / 86400000\<rceil>
                  * price room) / 2) \<and>
       (is_double
          (real_of_int \<lceil>real_of_int (body_checkOut body - body_checkIn body) / 86400000\<rceil>
             * price room) \<longrightarrow>
        totalAmount b
          = Finite
              (real_of_int \<lceil>real_of_int (body_checkOut body - body_checkIn body) / 86400000\<rceil>
                 * price room))"
proof -
  assume a: "bookings_post s user newId body = (Created b, s')"
  let ?nights = "\<lceil>real_of_int (body_checkOut body - body_checkIn body) / 86400000\<rceil>"
  from a obtain room where r: "findUnique room_id (body_roomId body) (rooms s) = Some room"
    and b: "b = newBooking user newId body room"
    by (auto simp: bookings_post_def Let_def split: option.splits)
  have n: "days (body_checkIn body) (body_checkOut body) = ?nights"
    by (simp add: days_def)
  have t: "totalAmount b = roundToDouble (real_of_int ?nights * price room)"
    by (simp add: b newBooking_def n times_def mult.commute)
  show ?thesis
  proof (intro exI [of _ room] conjI allI impI)
    show "findUnique room_id (body_roomId body) (rooms s) = Some room" by (rule r)
    show "totalAmount b = roundToDouble (real_of_int ?nights * price room)" by (rule t)
    show "\<bar>t' - real_of_int ?nights * price room\<bar>
        \<le> quantum (real_of_int ?nights * price room) / 2"
      if "totalAmount b = Finite t'" for t'
      using that t by (intro roundToDouble_error) simp
    show "totalAmount b = Finite (real_of_int ?nights * price room)"
      if "is_double (real_of_int ?nights * price room)"
      using roundToDouble_exact [OF that] t by simp
  qed
qed

text \<open>
  C5, the amended statement at the specification's example: rate 100, check-in
  2025-02-01T14:00Z (1738418400000 ms) and check-out 2025-02-05T12:00Z (1738756800000 ms)
  give 4 nights, and the product 400 is a double, so the total is 400.
\<close>

theorem bookings_post_totalAmount_witness:
  "bookings_post (store_with []) ''guest'' ''b2'' (request 1738418400000 1738756800000)
     = (Created (newBooking ''guest'' ''b2'' (request 1738418400000 1738756800000) room1),
        store_with [newBooking ''guest'' ''b2'' (request 1738418400000 1738756800000) room1]) \<and>
   price room1 = 100 \<and>
   \<lceil>real_of_int (1738756800000 - 1738418400000) / 86400000\<rceil> = 4 \<and>
   is_double (4 * 100) \<and>
   totalAmount (newBooking ''guest'' ''b2'' (request 1738418400000 1738756800000) room1)
     = Finite 400 \<and>
   \<bar>400 - 4 * 100\<bar> \<le> quantum (4 * 100) / 2"
proof -
  let ?body = "request 1738418400000 1738756800000"
  let ?b = "newBooking ''guest'' ''b2'' ?body room1"
  let ?nights = "\<lceil>real_of_int (body_checkOut ?body - body_checkIn ?body) / 86400000\<rceil>"
  have run: "bookings_post (store_with []) ''guest'' ''b2'' ?body = (Created ?b, store_with [?b])"
    by (simp add: booking_defs example_defs)
  from bookings_post_totalAmount [OF run] obtain room
    where r: "findUnique room_id (body_roomId ?body) (rooms (store_with [])) = Some room"
      and e: "is_double (real_of_int ?nights * price room) \<longrightarrow>
                totalAmount ?b = Finite (real_of_int ?nights * price room)"
      and h: "\<forall>t. totalAmount ?b = Finite t \<longrightarrow>
                \<bar>t - real_of_int ?nights * price room\<bar>
                  \<le> quantum (real_of_int ?nights * price room) / 2"
    by blast
  from r have room: "room = room1"
    by (simp add: findUnique_def example_defs)
  have nights: "\<lceil>real_of_int (1738756800000 - 1738418400000) / 86400000\<rceil> = 4"
    by simp
  have n: "?nights = 4"
    by (simp add: request_def)
  have p: "price room1 = 100"
    by (simp add: room1_def)
  have d: "is_double (4 * 100)"
    using is_double_examples by simp
  from e have t: "totalAmount ?b = Finite 400"
    unfolding room n p using d by simp
  from h t have "\<bar>400 - real_of_int ?nights * price room\<bar>
      \<le> quantum (real_of_int ?nights * price room) / 2"
    by blast
  then have half: "\<bar>400 - 4 * 100\<bar> \<le> quantum (4 * 100) / 2"
    unfolding room n p by simp
  from run p nights d t half show ?thesis
    by (intro conjI)
qed

text \<open>
  C6, as the specification states it, at a concrete request: check-in at day 2 and
  check-out at day 1 of the epoch, on the free room \<open>r1\<close> at 100 a night. The number of
  nights is -1; nothing rejects the request, and the row is inserted with the total -100.
\<close>

theorem bookings_post_negative_nights_created:
  "bookings_post (store_with []) ''guest'' ''b2'' (request 172800000 86400000)
     = (Created (newBooking ''guest'' ''b2'' (request 172800000 86400000) room1),
        store_with [newBooking ''guest'' ''b2'' (request 172800000 86400000) room1]) \<and>
   days 172800000 86400000 = - 1 \<and>
   totalAmount (newBooking ''guest'' ''b2'' (request 172800000 86400000) room1) = Finite (- 100)"
proof -
  have d: "days 172800000 86400000 = - 1"
    by (simp add: days_div)
  have "totalAmount (newBooking ''guest'' ''b2'' (request 172800000 86400000) room1)
      = Finite (- 100)"
    by (simp add: newBooking_def request_def room1_def d number_eval)
  moreover have "bookings_post (store_with []) ''guest'' ''b2'' (request 172800000 86400000)
     = (Created (newBooking ''guest'' ''b2'' (request 172800000 86400000) room1),
        store_with [newBooking ''guest'' ''b2'' (request 172800000 86400000) room1])"
    by (simp add: booking_defs example_defs)
  ultimately show ?thesis using d by simp
qed

text \<open>
  C6, amended. The booking handler rejects no request for its number of nights: a request
  with check-out not after check-in, on a stored room with a positive rate, that finds no
  stored booking in the availability query and whose insert succeeds with a finite total
  is answered 201; its row is appended, the number of nights is not positive and neither
  is the total. A rate that is not positive is rejected where the room is created:
  POST /api/rooms answers 400 and stores nothing.
\<close>

theorem bookings_post_no_pricing_rejection:
  "(body_checkOut body \<le> body_checkIn body \<and>
    findFirst (existingBookingWhere body) (bookings s) = None \<and>
    findUnique room_id (body_roomId body) (rooms s) = Some room \<and>
    0 < price room \<and>
    totalAmount (newBooking user newId body room) = Finite t \<and>
    booking_create s (newBooking user newId body room) = Some s'
    \<longrightarrow> bookings_post s user newId body = (Created (newBooking user newId body room), s') \<and>
        bookings s' = bookings s @ [newBooking user newId body room] \<and>
        days (body_checkIn body) (body_checkOut body) \<le> 0 \<and>
        t \<le> 0) \<and>
   (rb_price rbody \<le> 0
    \<longrightarrow> rooms_post sha256hex s now newRoomId rbody = (FailedToCreateRoom, s))"
proof (intro conjI impI)
  assume h: "body_checkOut body \<le> body_checkIn body \<and>
    findFirst (existingBookingWhere body) (bookings s) = None \<and>
    findUnique room_id (body_roomId body) (rooms s) = Some room \<and>
    0 < price room \<and>
    totalAmount (newBooking user newId body room) = Finite t \<and>
    booking_create s (newBooking user newId body room) = Some s'"
  then show "bookings_post s user newId body = (Created (newBooking user newId body room), s')"
    by (simp add: bookings_post_def Let_def)
  from h show "bookings s' = bookings s @ [newBooking user newId body room]"
    by (auto simp: booking_create_def split: if_splits)
  from h show d: "days (body_checkIn body) (body_checkOut body) \<le> 0"
    by (simp add: days_nonpos_iff)
  from h have "roundToDouble (price room * real_of_int (days (body_checkIn body) (body_checkOut body)))
      = Finite t"
    by (simp add: newBooking_def times_def)
  moreover from h d
  have "price room * real_of_int (days (body_checkIn body) (body_checkOut body)) \<le> 0"
    by (simp add: mult_le_0_iff)
  ultimately show "t \<le> 0"
    by (rule roundToDouble_nonpos)
next
  assume "rb_price rbody \<le> 0"
  then show "rooms_post sha256hex s now newRoomId rbody = (FailedToCreateRoom, s)"
    by (simp add: rooms_post_def createRoomSchema_def)
qed

text \<open>
  C6, the amended statement at the request above (check-out one day before check-in, room
  \<open>r1\<close> at 100 a night): the handler answers 201 with one row appended, -1 nights and
  the total -100. And a room body with the price 0 is answered 400.
\<close>

theorem bookings_post_no_pricing_rejection_witness:
  "bookings_post (store_with []) ''guest'' ''b2'' (request 172800000 86400000)
     = (Created (newBooking ''guest'' ''b2'' (request 172800000 86400000) room1),
        store_with [newBooking ''guest'' ''b2'' (request 172800000 86400000) room1]) \<and>
   bookings (store_with [newBooking ''guest'' ''b2'' (request 172800000 86400000) room1])
     = bookings (store_with [])
       @ [newBooking ''guest'' ''b2'' (request 172800000 86400000) room1] \<and>
   days (body_checkIn (request 172800000 86400000)) (body_checkOut (request 172800000 86400000))
     \<le> 0 \<and>
   (- 100 :: real) \<le> 0 \<and>
   rooms_post example_sha256hex (store_with []) 1738418400000 ''r2''
       ((room_body ''102'')\<lparr>rb_price := 0\<rparr>)
     = (FailedToCreateRoom, store_with [])"
proof -
  let ?body = "request 172800000 86400000"
  let ?b = "newBooking ''guest'' ''b2'' ?body room1"
  have o: "body_checkOut ?body \<le> body_checkIn ?body"
    by (simp add: request_def)
  have q: "findFirst (existingBookingWhere ?body) (bookings (store_with [])) = None"
    by (simp add: findFirst_def store_with_def)
  have r: "findUnique room_id (body_roomId ?body) (rooms (store_with [])) = Some room1"
    by (simp add: findUnique_def example_defs)
  have p: "0 < price room1"
    by (simp add: room1_def)
  have d: "days 172800000 86400000 = - 1"
    by (simp add: days_div)
  have t: "totalAmount ?b = Finite (- 100)"
    by (simp add: newBooking_def request_def room1_def d number_eval)
  have c: "booking_create (store_with []) ?b = Some (store_with [?b])"
    by (simp add: booking_create_def newBooking_def findUnique_def example_defs)
  have z: "rb_price ((room_body ''102'')\<lparr>rb_price := 0\<rparr>) \<le> 0"
    by simp
  note inst = bookings_post_no_pricing_rejection
    [where body = ?body and s = "store_with []" and room = room1 and user = "''guest''"
       and newId = "''b2''" and t = "- 100" and s' = "store_with [?b]"
       and rbody = "(room_body ''102'')\<lparr>rb_price := 0\<rparr>"
       and ?sha256hex = example_sha256hex and now = 1738418400000 and newRoomId = "''r2''"]
  from inst [THEN conjunct1, THEN mp] o q r p t c
  have a: "bookings_post (store_with []) ''guest'' ''b2'' ?body = (Created ?b, store_with [?b]) \<and>
        bookings (store_with [?b]) = bookings (store_with []) @ [?b] \<and>
        days (body_checkIn ?body) (body_checkOut ?body) \<le> 0 \<and> (- 100 :: real) \<le> 0"
    by blast
  from inst [THEN conjunct2, THEN mp, OF z]
  have b: "rooms_post example_sha256hex (store_with []) 1738418400000 ''r2''
       ((room_body ''102'')\<lparr>rb_price := 0\<rparr>) = (FailedToCreateRoom, store_with [])" .
  from a b show ?thesis by blast
qed

section \<open>Status updates: PUT /api/bookings/:id/status\<close>

text \<open>
  C4, as the specification states it, at a concrete request: the owner of hotel \<open>h1\<close>
  asks to move the PENDING booking \<open>b1\<close> straight to CHECKED_OUT, a step the
  specification's table does not have. The handler answers 200 and stores the new status.
\<close>

theorem bookings_put_status_pending_to_checked_out:
  "bookings_put_status (store_with [booking_of PENDING 100 200]) ''owner'' ''b1'' CHECKED_OUT
     = (Updated (booking_of CHECKED_OUT 100 200), store_with [booking_of CHECKED_OUT 100 200]) \<and>
   \<not> spec_reachable PENDING CHECKED_OUT"
  by (simp add: status_defs example_defs)

text \<open>
  C4, amended to the handler. For every stored booking whose hotel is stored and every
  requested status of the enum, the update requested by the hotel's owner succeeds
  whatever the current status is: the answer carries the booking with the requested
  status, only the \<open>bookings\<close> table changes, and the stored row then has that status.
  The handler consults no transition table and has no answer for an invalid transition.
\<close>

theorem bookings_put_status_any_transition:
  "findUnique booking_id k (bookings s) = Some booking \<Longrightarrow>
   findUnique hotel_id (hotelId booking) (hotels s) = Some hotel \<Longrightarrow>
   ownerId hotel = user \<Longrightarrow>
   bookings_put_status s user k newStatus =
     (Updated (booking\<lparr>status := newStatus\<rparr>),
      s\<lparr>bookings := booking_update k newStatus (bookings s)\<rparr>) \<and>
   findUnique booking_id k (bookings (snd (bookings_put_status s user k newStatus)))
     = Some (booking\<lparr>status := newStatus\<rparr>)"
  by (simp add: bookings_put_status_def findUnique_def find_booking_update)

text \<open>
  C4, the amended statement at a concrete request: the owner moves the CANCELLED booking
  \<open>b1\<close>, terminal in the specification's table, back to PENDING.
\<close>

theorem bookings_put_status_any_transition_witness:
  "bookings_put_status (store_with [booking_of CANCELLED 100 200]) ''owner'' ''b1'' PENDING =
     (Updated ((booking_of CANCELLED 100 200)\<lparr>status := PENDING\<rparr>),
      (store_with [booking_of CANCELLED 100 200])
        \<lparr>bookings := booking_update ''b1'' PENDING
            (bookings (store_with [booking_of CANCELLED 100 200]))\<rparr>) \<and>
   findUnique booking_id ''b1''
      (bookings (snd (bookings_put_status (store_with [booking_of CANCELLED 100 200])
          ''owner'' ''b1'' PENDING)))
     = Some ((booking_of CANCELLED 100 200)\<lparr>status := PENDING\<rparr>)"
  by (rule bookings_put_status_any_transition [where hotel = hotel1])
     (simp_all add: example_defs findUnique_def)

text \<open>
  C7, as the specification states it, at a concrete request: user \<open>manager\<close> is in the
  \<open>managers\<close> relation of hotel \<open>h1\<close>, the hotel of booking \<open>b1\<close>, and is not its
  owner. The handler answers 403 and leaves the store as it was: a delegated manager does
  not pass the check.
\<close>

theorem bookings_put_status_manager_rejected:
  "''manager'' \<in> set (managers hotel1) \<and>
   findUnique hotel_id (hotelId (booking_of PENDING 100 200))
      (hotels (store_with [booking_of PENDING 100 200])) = Some hotel1 \<and>
   bookings_put_status (store_with [booking_of PENDING 100 200]) ''manager'' ''b1'' CONFIRMED
     = (NotAuthorized, store_with [booking_of PENDING 100 200])"
  by (simp add: status_defs example_defs)

text \<open>
  C7, amended to the handler ("Only hotel owner can update booking status"). For every
  stored booking whose hotel is stored: a request by any user other than the hotel's
  owner, a delegated manager included, is answered 403 and the store is unchanged; a
  request by the owner passes the check and is answered with the updated booking.
\<close>

theorem bookings_put_status_owner_only:
  "findUnique booking_id k (bookings s) = Some booking \<Longrightarrow>
   findUnique hotel_id (hotelId booking) (hotels s) = Some hotel \<Longrightarrow>
   (user \<noteq> ownerId hotel \<longrightarrow> bookings_put_status s user k newStatus = (NotAuthorized, s)) \<and>
   (user = ownerId hotel \<longrightarrow>
      fst (bookings_put_status s user k newStatus) = Updated (booking\<lparr>status := newStatus\<rparr>))"
  by (auto simp add: bookings_put_status_def)

text \<open>
  C7, the amended statement at concrete requests on the PENDING booking \<open>b1\<close>: the guest
  is answered 403 with the store unchanged, the owner is answered with the booking
  CONFIRMED.
\<close>

theorem bookings_put_status_owner_only_witness:
  "bookings_put_status (store_with [booking_of PENDING 100 200]) ''guest'' ''b1'' CONFIRMED
      = (NotAuthorized, store_with [booking_of PENDING 100 200]) \<and>
   fst (bookings_put_status (store_with [booking_of PENDING 100 200]) ''owner'' ''b1'' CONFIRMED)
      = Updated ((booking_of PENDING 100 200)\<lparr>status := CONFIRMED\<rparr>)"
proof
  have b: "findUnique booking_id ''b1'' (bookings (store_with [booking_of PENDING 100 200]))
      = Some (booking_of PENDING 100 200)"
    by (simp add: example_defs findUnique_def)
  have h: "findUnique hotel_id (hotelId (booking_of PENDING 100 200))
      (hotels (store_with [booking_of PENDING 100 200])) = Some hotel1"
    by (simp add: example_defs findUnique_def)
  show "bookings_put_status (store_with [booking_of PENDING 100 200]) ''guest'' ''b1'' CONFIRMED
      = (NotAuthorized, store_with [booking_of PENDING 100 200])"
    by (rule bookings_put_status_owner_only [OF b h, THEN conjunct1, THEN mp])
       (simp add: hotel1_def)
  show "fst (bookings_put_status (store_with [booking_of PENDING 100 200]) ''owner'' ''b1''
          CONFIRMED) = Updated ((booking_of PENDING 100 200)\<lparr>status := CONFIRMED\<rparr>)"
    by (rule bookings_put_status_owner_only [OF b h, THEN conjunct2, THEN mp])
       (simp add: hotel1_def)
qed

section \<open>Concurrent calls of POST /api/bookings\<close>




section \<open>Encryption round trip\<close>

text \<open>
  C8. Let the random salt have 64 bytes and the random iv 16, let the key derivation
  return the 32 bytes it is asked for, and let the library cipher be correct for such keys
  and ivs: it returns a ciphertext and a 16-byte tag that the decipher, given the same
  key, iv and tag, turns back into the data. Then \<open>encrypt\<close> of any payload \<open>P\<close>
  succeeds, the blob it returns is salt, iv, tag and ciphertext in this order, and
  \<open>decrypt\<close> of that blob with the returned key gives \<open>P\<close> back: the offsets at which
  \<open>decrypt\<close> cuts the blob are those at which \<open>encrypt\<close> joined it.
\<close>

theorem decrypt_encrypt:
  assumes salt: "length (rnd_salt rnd) = saltLength"
    and iv: "length (rnd_iv rnd) = ivLength"
    and kdf: "\<forall>password salt.
        length (pbkdf2Sync lib password salt 100000 keyLength ''sha512'') = keyLength"
    and gcm: "\<forall>key iv data. length key = keyLength \<and> length iv = ivLength \<longrightarrow>
        (\<exists>encrypted tag. cipher lib algorithm key iv tagLength data = Some (encrypted, tag) \<and>
            length tag = tagLength \<and>
            decipher lib algorithm key iv tagLength tag encrypted = Some data)"
  shows "\<exists>encryptedData encryptionKey tag encrypted.
           encrypt lib rnd P = Some (encryptedData, encryptionKey) \<and>
           encryptedData = rnd_salt rnd @ rnd_iv rnd @ tag @ encrypted \<and>
           length tag = tagLength \<and>
           decrypt lib encryptedData encryptionKey = Some P"
proof -
  let ?password = "toString_hex (rnd_password rnd)"
  let ?key = "generateKey lib ?password (rnd_salt rnd)"
  have key: "length ?key = keyLength"
    using kdf by (simp add: generateKey_def)
  with iv gcm obtain encrypted tag where
    c: "cipher lib algorithm ?key (rnd_iv rnd) tagLength P = Some (encrypted, tag)"
    and t: "length tag = tagLength"
    and d: "decipher lib algorithm ?key (rnd_iv rnd) tagLength tag encrypted = Some P"
    by blast
  let ?blob = "rnd_salt rnd @ rnd_iv rnd @ tag @ encrypted"
  have e: "encrypt lib rnd P = Some (?blob, ?password)"
    using c by (simp add: encrypt_def Let_def)
  have s1: "subarray ?blob 0 saltLength = rnd_salt rnd"
    using salt by (simp add: subarray_def)
  have s2: "subarray ?blob saltLength (saltLength + ivLength) = rnd_iv rnd"
    using salt iv by (simp add: subarray_def)
  have s3: "subarray ?blob (saltLength + ivLength) (saltLength + ivLength + tagLength) = tag"
    using salt iv t by (simp add: subarray_def)
  have s4: "subarray_from ?blob (saltLength + ivLength + tagLength) = encrypted"
    using salt iv t by (simp add: subarray_from_def)
  have "decrypt lib ?blob ?password = Some P"
    unfolding decrypt_def Let_def s1 s2 s3 s4 by (rule d)
  with e t show ?thesis by blast
qed

text \<open>
  C8 at a concrete payload, with the stand-in primitives: the three bytes 1, 2, 3 come
  back from the blob that \<open>encrypt\<close> built.
\<close>

theorem decrypt_encrypt_witness:
  "\<exists>encryptedData encryptionKey tag encrypted.
           encrypt example_lib example_random [1, 2, 3] = Some (encryptedData, encryptionKey) \<and>
           encryptedData = rnd_salt example_random @ rnd_iv example_random @ tag @ encrypted \<and>
           length tag = tagLength \<and>
           decrypt example_lib encryptedData encryptionKey = Some [1, 2, 3]"
  by (rule decrypt_encrypt)
     (simp_all add: example_lib_def example_random_def saltLength_def ivLength_def
        keyLength_def tagLength_def o_def)

section \<open>Room codes\<close>

text \<open>
  C10. The room code is the first six characters of the SHA-256 hex digest of the decimal
  millisecond count: a function of the clock reading alone. So whenever a room is created
  at a clock reading, its code is that prefix; every room created at the same reading in
  any store and for any body gets the same code; and in the store that the creation
  leaves, every further creation at the same reading is answered 400 "Failed to create
  room" and writes nothing, the unique constraint on \<open>roomCode\<close> being the only thing
  that tells the two calls apart.
\<close>

theorem rooms_post_same_millisecond:
  "rooms_post sha256hex s now newId body = (RoomCreated r, s') \<Longrightarrow>
     roomCode r = take 6 (sha256hex (toString now)) \<and>
     (\<forall>newId2 body2. rooms_post sha256hex s' now newId2 body2 = (FailedToCreateRoom, s')) \<and>
     (\<forall>s2 newId2 body2 r2 s3. rooms_post sha256hex s2 now newId2 body2 = (RoomCreated r2, s3)
         \<longrightarrow> roomCode r2 = roomCode r)"
proof (intro conjI allI impI)
  assume a: "rooms_post sha256hex s now newId body = (RoomCreated r, s')"
  then have r: "r = newRoom newId (generateRoomCode sha256hex now) body"
    and c: "room_create s r = Some s'"
    by (auto simp: rooms_post_def Let_def split: if_splits option.splits)
  show code: "roomCode r = take 6 (sha256hex (toString now))"
    by (simp add: r newRoom_def generateRoomCode_def)
  have "roomCode r \<in> set (map roomCode (rooms s'))"
    using room_create_rooms [OF c] by simp
  then have "room_create s' (newRoom newId2 (generateRoomCode sha256hex now) body2) = None"
    for newId2 body2
    by (simp add: room_create_def newRoom_def r)
  then show "rooms_post sha256hex s' now newId2 body2 = (FailedToCreateRoom, s')"
    for newId2 body2
    by (simp add: rooms_post_def Let_def)
  show "roomCode r2 = roomCode r"
    if "rooms_post sha256hex s2 now newId2 body2 = (RoomCreated r2, s3)"
    for s2 newId2 body2 r2 s3
    using that by (auto simp: rooms_post_def Let_def r newRoom_def split: if_splits option.splits)
qed

text \<open>
  C10 at a concrete clock reading, 1738418400000 ms, with the stand-in digest: room 102
  is created with code \<open>000004\<close>; in the store this leaves, creating room 103 at the same
  reading fails on the unique constraint; and on the first store, where no room has the
  code yet, room 103 created at the same reading gets the same code.
\<close>

theorem rooms_post_same_millisecond_witness:
  "rooms_post example_sha256hex (store_with []) 1738418400000 ''r2'' (room_body ''102'')
     = (RoomCreated (newRoom ''r2'' ''000004'' (room_body ''102'')),
        (store_with [])\<lparr>rooms := [room1, newRoom ''r2'' ''000004'' (room_body ''102'')]\<rparr>) \<and>
   roomCode (newRoom ''r2'' ''000004'' (room_body ''102''))
     = take 6 (example_sha256hex (toString 1738418400000)) \<and>
   rooms_post example_sha256hex
       ((store_with [])\<lparr>rooms := [room1, newRoom ''r2'' ''000004'' (room_body ''102'')]\<rparr>)
       1738418400000 ''r3'' (room_body ''103'')
     = (FailedToCreateRoom,
        (store_with [])\<lparr>rooms := [room1, newRoom ''r2'' ''000004'' (room_body ''102'')]\<rparr>) \<and>
   rooms_post example_sha256hex (store_with []) 1738418400000 ''r3'' (room_body ''103'')
     = (RoomCreated (newRoom ''r3'' ''000004'' (room_body ''103'')),
        (store_with [])\<lparr>rooms := [room1, newRoom ''r3'' ''000004'' (room_body ''103'')]\<rparr>) \<and>
   roomCode (newRoom ''r3'' ''000004'' (room_body ''103''))
     = roomCode (newRoom ''r2'' ''000004'' (room_body ''102''))"
proof -
  let ?s = "store_with []"
  let ?r2 = "newRoom ''r2'' ''000004'' (room_body ''102'')"
  let ?r3 = "newRoom ''r3'' ''000004'' (room_body ''103'')"
  have code: "generateRoomCode example_sha256hex 1738418400000 = ''000004''"
    by (simp add: generateRoomCode_def example_sha256hex_def toString_example)
  have run2: "rooms_post example_sha256hex ?s 1738418400000 ''r2'' (room_body ''102'')
      = (RoomCreated ?r2, ?s\<lparr>rooms := [room1, ?r2]\<rparr>)"
    by (simp add: rooms_post_def code createRoomSchema_def room_create_def newRoom_def
        findUnique_def room_body_def example_defs Let_def)
  have run3: "rooms_post example_sha256hex ?s 1738418400000 ''r3'' (room_body ''103'')
      = (RoomCreated ?r3, ?s\<lparr>rooms := [room1, ?r3]\<rparr>)"
    by (simp add: rooms_post_def code createRoomSchema_def room_create_def newRoom_def
        findUnique_def room_body_def example_defs Let_def)
  note same = rooms_post_same_millisecond [OF run2]
  from same have c1: "roomCode ?r2 = take 6 (example_sha256hex (toString 1738418400000))"
    by blast
  from same have c2: "rooms_post example_sha256hex (?s\<lparr>rooms := [room1, ?r2]\<rparr>)
      1738418400000 ''r3'' (room_body ''103'') = (FailedToCreateRoom, ?s\<lparr>rooms := [room1, ?r2]\<rparr>)"
    by blast
  from same run3 have c3: "roomCode ?r3 = roomCode ?r2"
    by blast
  from run2 c1 c2 run3 c3 show ?thesis
    by (intro conjI)
qed

end
